theory Spec2Isabelle
  imports Main "HOL-Library.Sublist"
begin

section \<open>NERO voice assistant: state machine, orchestrator, stop-word listener\<close>

text \<open>
  The development follows three source files of the assistant:
  \<^verbatim>\<open>nero_assistant.py\<close> (classes \<^verbatim>\<open>MaquinaEstadosNero\<close> and \<^verbatim>\<open>NeroAssistant\<close>),
  \<^verbatim>\<open>modules/stt_fraco.py\<close> (the background stop-word listener and its queue) and
  \<^verbatim>\<open>modules/agent_handler.py\<close> (the summary spoken by the TTS).

  Python objects are records, mutation is explicit state passing, and every call that
  leaves the orchestrator (the logger, the recogniser, the agent, the synthesiser) is
  written into an ordered trace of effects.  What an external collaborator answers is
  not computed: it is read from an environment value that the caller supplies.
\<close>

subsection \<open>Effects\<close>

text \<open>
  \<open>chamada\<close> names the collaborator operations that the orchestrator can reach through
  its attributes \<^verbatim>\<open>stt_fraco\<close>, \<^verbatim>\<open>stt_forte\<close>, \<^verbatim>\<open>agent\<close>, \<^verbatim>\<open>tts\<close> and through the
  \<^verbatim>\<open>speech_recognition\<close> library.
\<close>

datatype chamada =
    DetectarWakeWord
  | AguardarPalavraParada
  | VerificarPalavraParadaDetectada
  | Microphone
  | Listen
  | TranscreverAudioFile
  | ProcessarPrompt string
  | Falar string

text \<open>
  \<open>Log nivel mensagem\<close> is one call of a \<^verbatim>\<open>NeroLogger\<close> method, the level being the
  string the method passes to \<^verbatim>\<open>log\<close> (the filter on \<^verbatim>\<open>DEBUG\<close> records and the
  time stamp belong to the logger and are not modelled).  \<open>Transicao a b\<close> is the
  record that \<^verbatim>\<open>transitar\<close> writes with \<^verbatim>\<open>logger.info\<close> when it moves from state \<open>a\<close>
  to state \<open>b\<close> (the message \<^verbatim>\<open>State transition:\<close> with the two names and an arrow
  between them), kept structured so that the path of states can be read back from the
  trace.
\<close>

datatype efeito =
    Log string string
  | Transicao string string
  | Chamada chamada

subsection \<open>The state of the assistant\<close>

text \<open>
  One record holds the attributes that the modelled methods read or write:
  \<^verbatim>\<open>state_machine.estado_atual\<close>, \<^verbatim>\<open>running\<close>, the flag of the \<^verbatim>\<open>asyncio.Event\<close>
  \<^verbatim>\<open>recording_complete\<close>, and the trace of effects (the logger is one object shared by
  the state machine and the assistant).
\<close>

record nero =
  estado_atual :: string
  running :: bool
  recording_complete :: bool
  efeitos :: "efeito list"

definition registrar :: "efeito \<Rightarrow> nero \<Rightarrow> nero" where
  "registrar e s = s\<lparr>efeitos := efeitos s @ [e]\<rparr>"

definition novos :: "nero \<Rightarrow> nero \<Rightarrow> efeito list" where
  "novos s s' = drop (length (efeitos s)) (efeitos s')"

fun destinos :: "efeito list \<Rightarrow> string list" where
  "destinos [] = []"
| "destinos (Transicao a b # es) = b # destinos es"
| "destinos (e # es) = destinos es"

subsection \<open>\<^verbatim>\<open>MaquinaEstadosNero\<close>\<close>

definition ESTADOS :: "(string \<times> string) list" where
  "ESTADOS =
    [(''DESCANSO'', ''Idle - Waiting for wake word''),
     (''AGUARDANDO'', ''Waiting - Wake word detected, listening for prompt''),
     (''GRAVANDO'', ''Recording - Capturing user prompt''),
     (''PROCESSANDO'', ''Processing - Sending to Claude Agent''),
     (''RESPONDENDO'', ''Responding - Playing TTS response'')]"

definition estados_validos :: "string set" where
  "estados_validos = fst ` set ESTADOS"

text \<open>
  \<^verbatim>\<open>transitar\<close>: an unknown name is logged and refused; the current state is accepted
  with no effect at all; any other known name is stored and logged.
\<close>

definition transitar :: "string \<Rightarrow> nero \<Rightarrow> bool \<times> nero" where
  "transitar novo_estado s =
    (case map_of ESTADOS novo_estado of
       None \<Rightarrow> (False, registrar (Log ''ERROR'' (''Invalid state: '' @ novo_estado)) s)
     | Some significado \<Rightarrow>
         if novo_estado = estado_atual s then (True, s)
         else
           let estado_anterior = estado_atual s;
               s1 = s\<lparr>estado_atual := novo_estado\<rparr>;
               s2 = registrar (Transicao estado_anterior novo_estado) s1;
               s3 = registrar (Log ''DEBUG'' (''State meaning: '' @ significado)) s2
           in (True, s3))"

definition estado :: "nero \<Rightarrow> string" where
  "estado s = estado_atual s"

text \<open>A run of calls, one per name, as the loop of \<^verbatim>\<open>test_complete_state_cycle\<close> makes them.\<close>

fun transitar_todos :: "string list \<Rightarrow> nero \<Rightarrow> bool list \<times> nero" where
  "transitar_todos [] s = ([], s)"
| "transitar_todos (e # es) s =
    (let (r, s1) = transitar e s;
         (rs, s2) = transitar_todos es s1
     in (r # rs, s2))"

subsection \<open>\<^verbatim>\<open>AgentHandler._gerar_resumo_tts\<close>\<close>

text \<open>
  A Python \<^verbatim>\<open>str\<close> is a sequence of code points and \<^verbatim>\<open>len\<close> counts them, so the text
  is a list of code points here.  \<^verbatim>\<open>str.rfind\<close> gives the highest index of the
  character, or \<open>-1\<close>.
\<close>

type_synonym texto = "nat list"

definition espaco :: nat where
  "espaco = of_char CHR '' ''"

definition reticencias :: texto where
  "reticencias = map of_char ''...''"

definition rfind :: "texto \<Rightarrow> nat \<Rightarrow> int" where
  "rfind xs c =
    (case filter (\<lambda>i. xs ! i = c) (rev [0..<length xs]) of
       [] \<Rightarrow> - 1
     | i # _ \<Rightarrow> int i)"

text \<open>
  The test \<^verbatim>\<open>last_space > max_chars * 0.8\<close> compares an integer with the float
  \<open>160.0\<close>; it is written over the integers as \<open>10 * last_space > 8 * max_chars\<close>.
\<close>

definition gerar_resumo_tts :: "texto \<Rightarrow> texto" where
  "gerar_resumo_tts txt =
    (if txt = [] then []
     else
       let max_chars = 200 in
       if length txt \<le> max_chars then txt
       else
         let truncado = take max_chars txt;
             last_space = rfind truncado espaco;
             truncado1 = (if 10 * last_space > 8 * int max_chars
                          then take (nat last_space) truncado else truncado);
             truncado2 = (if length truncado1 < length txt
                          then truncado1 @ reticencias else truncado1)
         in truncado2)"

subsection \<open>What the collaborators answer during one turn\<close>

text \<open>
  One value of \<open>ambiente\<close> fixes what the outside world does during one pass through
  the body of the main loop:
  \<^item> \<open>sinal\<close>: SIGINT or SIGTERM arrives while \<^verbatim>\<open>detectar_wake_word\<close> blocks, so
    \<^verbatim>\<open>_signal_handler\<close> runs before the call returns;
  \<^item> \<open>wake\<close>: the dict returned by \<^verbatim>\<open>detectar_wake_word\<close>, or an exception;
  \<^item> \<open>microfone\<close>: whether \<^verbatim>\<open>sr.Microphone()\<close> can be constructed (the call stands
    before the \<^verbatim>\<open>try\<close> of \<^verbatim>\<open>estado_gravando\<close>);
  \<^item> \<open>escuta\<close>: how the \<^verbatim>\<open>with mic as source: ... r.listen(...)\<close> block ends;
  \<^item> \<open>transcrito\<close>: what \<^verbatim>\<open>transcrever_audio_file\<close> returns, or an exception;
  \<^item> \<open>agente\<close>: what \<^verbatim>\<open>agent.processar_prompt\<close> returns, or an exception;
  \<^item> \<open>respostas\<close>: the runs of the registered callback \<^verbatim>\<open>_on_agent_response\<close> that
    end before the 30 second wait of \<^verbatim>\<open>estado_processando\<close> gives up, each with its
    text and whether \<^verbatim>\<open>tts.falar\<close> returned (\<open>True\<close>) or raised (\<open>False\<close>).
\<close>

datatype excecao = Excecao

datatype wake_outcome = WakeDetected string | WakeNotDetected | WakeRaised

datatype listen_outcome = ListenAudio | ListenWaitTimeout | ListenRaised | OpenRaised

datatype stt_outcome = SttText string | SttRaised

text \<open>
  The dict returned by \<^verbatim>\<open>processar_prompt\<close>; the keys \<^verbatim>\<open>ferramentas_usadas\<close> and
  \<^verbatim>\<open>custo_usd\<close> are never read by the orchestrator and are left out.
\<close>

record resposta_agente =
  resultado :: string
  sucesso :: bool

datatype agent_outcome = AgentRaised | AgentResult resposta_agente

record ambiente =
  sinal :: bool
  wake :: wake_outcome
  microfone :: bool
  escuta :: listen_outcome
  transcrito :: stt_outcome
  agente :: agent_outcome
  respostas :: "(string \<times> bool) list"

subsection \<open>The completion signal: \<^verbatim>\<open>asyncio.Event\<close>\<close>

text \<open>
  \<^verbatim>\<open>recording_complete\<close> is an \<^verbatim>\<open>asyncio.Event\<close> of the Python library: a flag with
  \<^verbatim>\<open>set()\<close>, \<^verbatim>\<open>clear()\<close> and \<^verbatim>\<open>wait()\<close>.  \<^verbatim>\<open>set\<close> and \<^verbatim>\<open>clear\<close> store the flag and
  never raise; \<^verbatim>\<open>wait\<close> returns \<^verbatim>\<open>True\<close> at once when the flag is set.
\<close>

definition event_set :: "nero \<Rightarrow> nero" where
  "event_set s = s\<lparr>recording_complete := True\<rparr>"

definition event_clear :: "nero \<Rightarrow> nero" where
  "event_clear s = s\<lparr>recording_complete := False\<rparr>"

text \<open>
  \<^verbatim>\<open>_on_agent_response\<close>: log, speak, then signal.  When \<^verbatim>\<open>tts.falar\<close> raises, the
  coroutine ends there and the signal is not given.
\<close>

definition on_agent_response :: "string \<times> bool \<Rightarrow> nero \<Rightarrow> nero" where
  "on_agent_response r s =
    (let s1 = registrar (Log ''DEBUG''
                (''Agent response callback: '' @ [CHR 0x27] @ take 50 (fst r) @ ''...'' @ [CHR 0x27])) s;
         s2 = registrar (Chamada (Falar (fst r))) s1
     in if snd r then event_set s2 else s2)"

text \<open>
  \<^verbatim>\<open>await asyncio.wait_for(self.recording_complete.wait(), timeout=30.0)\<close>.  The
  callbacks of \<open>rs\<close> are scheduled as tasks by the agent's hook and run while the
  orchestrator is suspended; the wait returns (\<open>True\<close>) when the flag is set, on entry
  or by one of them, and raises \<^verbatim>\<open>asyncio.TimeoutError\<close> (\<open>False\<close>) otherwise.
\<close>

definition wait_for_recording_complete :: "(string \<times> bool) list \<Rightarrow> nero \<Rightarrow> bool \<times> nero" where
  "wait_for_recording_complete rs s =
    (if recording_complete s then (True, s)
     else let s1 = foldl (\<lambda>t r. on_agent_response r t) s rs
          in (recording_complete s1, s1))"

subsection \<open>\<^verbatim>\<open>NeroAssistant\<close>: the five state methods\<close>

text \<open>
  The calls of \<^verbatim>\<open>asyncio.sleep\<close> only let time pass and are left out.  The handlers
  of the methods catch \<^verbatim>\<open>Exception\<close>; \<^verbatim>\<open>KeyboardInterrupt\<close> and task cancellation
  are not subclasses of it and are outside the model.

  In \<^verbatim>\<open>estado_processando\<close> the runs of the callback are taken into account where
  their signal is awaited, in the branch in which the agent reported success; in the
  other branches nothing reads the flag before \<^verbatim>\<open>run\<close> clears it in a later turn.
\<close>

definition signal_handler :: "nero \<Rightarrow> nero" where
  "signal_handler s = (registrar (Log ''INFO'' ''Shutdown signal received'') s)\<lparr>running := False\<rparr>"

definition estado_descanso :: "ambiente \<Rightarrow> nero \<Rightarrow> bool \<times> nero" where
  "estado_descanso env s =
    (let s1 = snd (transitar ''DESCANSO'' s);
         s2 = registrar (Log ''LISTENING''
                (''Say '' @ [CHR 0x27] @ ''NERO OUVIR'' @ [CHR 0x27] @ '' to activate...'')) s1;
         s3 = registrar (Chamada DetectarWakeWord) s2;
         s4 = (if sinal env then signal_handler s3 else s3)
     in case wake env of
          WakeDetected palavra \<Rightarrow>
            (True, registrar (Log ''COMPLETE'' (''Wake word detected: '' @ palavra)) s4)
        | WakeNotDetected \<Rightarrow> (if \<not> running s4 then (False, s4) else (True, s4))
        | WakeRaised \<Rightarrow> (True, registrar (Log ''ERROR'' ''Error in DESCANSO state'') s4))"

definition estado_aguardando :: "nero \<Rightarrow> bool \<times> nero" where
  "estado_aguardando s =
    (let s1 = snd (transitar ''AGUARDANDO'' s);
         s2 = registrar (Log ''RECORDING'' ''Starting recording session...'') s1;
         s3 = registrar (Log ''INFO''
                (''Speak your prompt. Say '' @ [CHR 0x27] @ ''NERO ENVIAR'' @ [CHR 0x27] @ '' when done.'')) s2
     in (True, s3))"

text \<open>
  \<^verbatim>\<open>estado_gravando\<close> returns the transcript, or lets the exception of
  \<^verbatim>\<open>sr.Microphone()\<close> escape (\<open>Inl\<close>).  \<^verbatim>\<open>recording_timeout\<close> is 600.
\<close>

definition estado_gravando :: "ambiente \<Rightarrow> nero \<Rightarrow> (excecao + string) \<times> nero" where
  "estado_gravando env s =
    (let s1 = snd (transitar ''GRAVANDO'' s);
         s2 = registrar (Log ''RECORDING'' ''Listening for your prompt...'') s1;
         s3 = registrar (Chamada Microphone) s2
     in if \<not> microfone env then (Inl Excecao, s3)
        else case escuta env of
          OpenRaised \<Rightarrow> (Inr [], registrar (Log ''ERROR'' ''Recording failed'') s3)
        | ListenRaised \<Rightarrow>
            (let s4 = registrar (Log ''INFO'' ''Recording... (max 600s)'') s3;
                 s5 = registrar (Chamada Listen) s4
             in (Inr [], registrar (Log ''ERROR'' ''Recording failed'') s5))
        | ListenWaitTimeout \<Rightarrow>
            (let s4 = registrar (Log ''INFO'' ''Recording... (max 600s)'') s3;
                 s5 = registrar (Chamada Listen) s4
             in (Inr [], registrar (Log ''WARNING'' ''No speech detected (timeout)'') s5))
        | ListenAudio \<Rightarrow>
            (let s4 = registrar (Log ''INFO'' ''Recording... (max 600s)'') s3;
                 s5 = registrar (Chamada Listen) s4;
                 s6 = registrar (Chamada TranscreverAudioFile) s5
             in case transcrito env of
                  SttRaised \<Rightarrow> (Inr [], registrar (Log ''ERROR'' ''Recording failed'') s6)
                | SttText transcricao \<Rightarrow>
                    if transcricao \<noteq> []
                    then (Inr transcricao,
                          registrar (Log ''TRANSCRIPT'' ([CHR 0x27] @ transcricao @ [CHR 0x27])) s6)
                    else (Inr [], registrar (Log ''WARNING'' ''Transcription failed or empty'') s6)))"

definition estado_processando :: "ambiente \<Rightarrow> string \<Rightarrow> nero \<Rightarrow> bool \<times> nero" where
  "estado_processando env transcricao s =
    (let s1 = snd (transitar ''PROCESSANDO'' s);
         s2 = registrar (Log ''AGENT'' ''Sending to Claude Agent SDK...'') s1
     in if transcricao = []
        then (False, registrar (Log ''WARNING'' ''Empty transcription, skipping processing'') s2)
        else
          let s3 = registrar (Chamada (ProcessarPrompt transcricao)) s2
          in case agente env of
               AgentRaised \<Rightarrow> (False, registrar (Log ''ERROR'' ''Processing failed'') s3)
             | AgentResult r \<Rightarrow>
                 if sucesso r
                 then
                   let s4 = registrar (Log ''COMPLETE'' ''Agent processing completed'') s3;
                       s5 = registrar (Log ''INFO'' ''Waiting for audio response...'') s4;
                       (chegou, s6) = wait_for_recording_complete (respostas env) s5
                   in if chegou then (True, s6)
                      else (False, registrar (Log ''WARNING'' ''TTS response timeout'') s6)
                 else (False, registrar (Log ''ERROR'' ''Agent processing failed'') s3))"

definition estado_respondendo :: "nero \<Rightarrow> nero" where
  "estado_respondendo s =
    (let s1 = snd (transitar ''RESPONDENDO'' s);
         s2 = registrar (Log ''COMPLETE'' ''Response complete'') s1;
         s3 = snd (transitar ''DESCANSO'' s2)
     in registrar (Log ''DONE'' ''Ready for next command'') s3)"

subsection \<open>\<^verbatim>\<open>NeroAssistant.run\<close>: the body of the loop and the loop\<close>

text \<open>
  \<open>Break\<close> is the \<^verbatim>\<open>break\<close> of the loop, \<open>Continue\<close> a \<^verbatim>\<open>continue\<close> or the end of the
  body (both go back to the test \<^verbatim>\<open>while self.running\<close>), and \<open>Raise\<close> an exception
  that leaves the loop for the handlers of \<^verbatim>\<open>run\<close>.
\<close>

datatype controle = Break | Continue | Raise

definition iteracao :: "ambiente \<Rightarrow> nero \<Rightarrow> controle \<times> nero" where
  "iteracao env s =
    (let (acordou, s1) = estado_descanso env s
     in if \<not> acordou then (Break, s1)
        else
          let (pronto, s2) = estado_aguardando s1
          in if \<not> pronto then (Continue, s2)
             else case estado_gravando env s2 of
                 (Inl e, s3) \<Rightarrow> (Raise, s3)
               | (Inr transcricao, s3) \<Rightarrow>
                   if transcricao = []
                   then
                     let s4 = registrar (Log ''WARNING'' ''No transcription, returning to idle'') s3
                     in (Continue, snd (transitar ''DESCANSO'' s4))
                   else
                     let s4 = event_clear s3;
                         (ok, s5) = estado_processando env transcricao s4
                     in if \<not> ok
                        then
                          let s6 = registrar (Log ''WARNING'' ''Processing failed, returning to idle'') s5
                          in (Continue, snd (transitar ''DESCANSO'' s6))
                        else (Continue, estado_respondendo s5))"

text \<open>
  The loop runs one environment per pass.  It ends when \<^verbatim>\<open>running\<close> is false, on
  \<^verbatim>\<open>break\<close>, or on an exception; when the environments are used up it is still
  waiting for the next wake word.
\<close>

datatype saida = Encerrado | Falha | Aguardando

fun run_loop :: "ambiente list \<Rightarrow> nero \<Rightarrow> saida \<times> nero" where
  "run_loop [] s = (if running s then (Aguardando, s) else (Encerrado, s))"
| "run_loop (env # envs) s =
    (if \<not> running s then (Encerrado, s)
     else case iteracao env s of
         (Break, s1) \<Rightarrow> (Encerrado, s1)
       | (Raise, s1) \<Rightarrow> (Falha, registrar (Log ''ERROR'' ''Fatal error in main loop'') s1)
       | (Continue, s1) \<Rightarrow> run_loop envs s1)"

text \<open>The assistant as \<^verbatim>\<open>__init__\<close> leaves it, with an empty trace.\<close>

definition nero_inicial :: nero where
  "nero_inicial = \<lparr>estado_atual = ''DESCANSO'', running = True,
                    recording_complete = False, efeitos = []\<rparr>"

fun chamadas_agente :: "efeito list \<Rightarrow> string list" where
  "chamadas_agente [] = []"
| "chamadas_agente (Chamada (ProcessarPrompt t) # es) = t # chamadas_agente es"
| "chamadas_agente (e # es) = chamadas_agente es"

fun chamadas :: "efeito list \<Rightarrow> chamada list" where
  "chamadas [] = []"
| "chamadas (Chamada c # es) = c # chamadas es"
| "chamadas (e # es) = chamadas es"

subsection \<open>\<^verbatim>\<open>STTFraco\<close>: the stop-word listener and its queue\<close>

text \<open>
  The dicts that the listener puts on \<^verbatim>\<open>_stop_word_queue\<close>:
  \<^verbatim>\<open>{"detected": True, "palavra": w}\<close> and \<^verbatim>\<open>{"detected": False, "reason": r}\<close>.
  The queue is a \<^verbatim>\<open>queue.Queue\<close>: \<^verbatim>\<open>put\<close> appends, \<^verbatim>\<open>get_nowait\<close> takes the oldest
  element or raises \<^verbatim>\<open>queue.Empty\<close>.  The calls of the logger have no effect on the
  queue and are left out.
\<close>

datatype evento_parada = Detectado string | NaoDetectado string

record stt_fraco =
  stop_word_detected :: bool
  stop_word_queue :: "evento_parada list"

definition put :: "evento_parada \<Rightarrow> stt_fraco \<Rightarrow> stt_fraco" where
  "put e st = st\<lparr>stop_word_queue := stop_word_queue st @ [e]\<rparr>"

text \<open>
  What the outside world does during one pass of the \<^verbatim>\<open>while True\<close> loop of
  \<^verbatim>\<open>_listen_for_stop\<close>: the deadline test fires (\<open>Expirou\<close>), reading the clock
  raises (\<open>RelogioLevanta\<close>), or the pass listens.  Listening ends with
  \<^verbatim>\<open>WaitTimeoutError\<close> (\<open>SemFala\<close>), with another exception (\<open>EscutaLevanta\<close>), or
  with audio; for audio the environment says what \<^verbatim>\<open>recognize_sphinx\<close> does and what
  \<^verbatim>\<open>recognize_google\<close> does if it is called.
\<close>

datatype sphinx = SphinxTexto string | SphinxUnknownValue | SphinxRequestError | SphinxOutra

datatype google = GoogleTexto string | GoogleLevanta

datatype escuta_parada = SemFala | EscutaLevanta | Audio sphinx google

datatype passo = Expirou | RelogioLevanta | Escuta escuta_parada

text \<open>
  The callback is a parameter of \<^verbatim>\<open>aguardar_palavra_parada\<close>: called with the stop word,
  it returns or raises; the handlers of the loop tell \<^verbatim>\<open>sr.UnknownValueError\<close> and
  \<^verbatim>\<open>sr.RequestError\<close> from any other exception.
\<close>

datatype retorno_callback = Retorna | LevantaUnknownValue | LevantaRequestError | LevantaOutra

text \<open>
  \<^verbatim>\<open>str.upper\<close> and \<^verbatim>\<open>str.strip\<close>, for ASCII text; \<^verbatim>\<open>a in b\<close> on strings is
  \<^const>\<open>sublist\<close>.
\<close>

definition upper_char :: "char \<Rightarrow> char" where
  "upper_char c =
    (let n = (of_char c :: nat) in if 97 \<le> n \<and> n \<le> 122 then char_of (n - 32) else c)"

definition upper :: "string \<Rightarrow> string" where
  "upper s = map upper_char s"

definition isspace :: "char \<Rightarrow> bool" where
  "isspace c = ((of_char c :: nat) \<in> {9, 10, 11, 12, 13, 28, 29, 30, 31, 32})"

definition strip :: "string \<Rightarrow> string" where
  "strip s = rev (dropWhile isspace (rev (dropWhile isspace s)))"

text \<open>
  The \<^verbatim>\<open>for stop_word in stop_words\<close> loop on a recognised text.  At the first stop
  word contained in the text it sets the flag, puts the event and calls the callback;
  the result is \<open>None\<close> when no stop word matched and the outcome of the callback
  otherwise.
\<close>

definition verificar_texto ::
  "string list \<Rightarrow> (string \<Rightarrow> retorno_callback) \<Rightarrow> string \<Rightarrow> stt_fraco
     \<Rightarrow> retorno_callback option \<times> stt_fraco" where
  "verificar_texto stop_words callback txt st =
    (let texto_upper = strip (upper txt)
     in case find (\<lambda>stop_word. sublist (upper stop_word) texto_upper) stop_words of
          None \<Rightarrow> (None, st)
        | Some stop_word \<Rightarrow>
            (Some (callback stop_word),
             put (Detectado stop_word) (st\<lparr>stop_word_detected := True\<rparr>)))"

datatype andamento = Saiu | Continua

text \<open>
  The fallback to \<^verbatim>\<open>recognize_google\<close>: every exception inside it, the callback's
  too, is swallowed by \<^verbatim>\<open>except Exception: continue\<close>.
\<close>

definition google_fallback ::
  "string list \<Rightarrow> (string \<Rightarrow> retorno_callback) \<Rightarrow> google \<Rightarrow> stt_fraco
     \<Rightarrow> andamento \<times> stt_fraco" where
  "google_fallback stop_words callback g st =
    (case g of
       GoogleLevanta \<Rightarrow> (Continua, st)
     | GoogleTexto txt \<Rightarrow>
         (case verificar_texto stop_words callback txt st of
            (Some Retorna, st1) \<Rightarrow> (Saiu, st1)
          | (_, st1) \<Rightarrow> (Continua, st1)))"

text \<open>
  One pass of the loop.  After the event is put, the function returns only if the
  callback returns; an exception of the callback is handled like an exception of the
  recogniser (\<^verbatim>\<open>continue\<close>, or the fallback for \<^verbatim>\<open>sr.RequestError\<close>).
\<close>

definition passo_parada ::
  "string list \<Rightarrow> (string \<Rightarrow> retorno_callback) \<Rightarrow> passo \<Rightarrow> stt_fraco
     \<Rightarrow> andamento \<times> stt_fraco" where
  "passo_parada stop_words callback p st =
    (case p of
       Expirou \<Rightarrow> (Saiu, put (NaoDetectado ''timeout'') st)
     | RelogioLevanta \<Rightarrow> (Saiu, put (NaoDetectado ''error'') st)
     | Escuta SemFala \<Rightarrow> (Continua, st)
     | Escuta EscutaLevanta \<Rightarrow> (Continua, st)
     | Escuta (Audio sph g) \<Rightarrow>
         (case sph of
            SphinxUnknownValue \<Rightarrow> (Continua, st)
          | SphinxOutra \<Rightarrow> (Continua, st)
          | SphinxRequestError \<Rightarrow> google_fallback stop_words callback g st
          | SphinxTexto txt \<Rightarrow>
              (case verificar_texto stop_words callback txt st of
                 (None, st1) \<Rightarrow> (Continua, st1)
               | (Some Retorna, st1) \<Rightarrow> (Saiu, st1)
               | (Some LevantaUnknownValue, st1) \<Rightarrow> (Continua, st1)
               | (Some LevantaRequestError, st1) \<Rightarrow> google_fallback stop_words callback g st1
               | (Some LevantaOutra, st1) \<Rightarrow> (Continua, st1))))"

text \<open>
  The loop over the passes that the environment supplies.  \<open>Saiu\<close>: the thread
  function has returned; \<open>Continua\<close>: the passes are used up and the thread is still
  listening.
\<close>

fun listen_for_stop ::
  "string list \<Rightarrow> (string \<Rightarrow> retorno_callback) \<Rightarrow> passo list \<Rightarrow> stt_fraco
     \<Rightarrow> andamento \<times> stt_fraco" where
  "listen_for_stop stop_words callback [] st = (Continua, st)"
| "listen_for_stop stop_words callback (p # ps) st =
    (case passo_parada stop_words callback p st of
       (Saiu, st1) \<Rightarrow> (Saiu, st1)
     | (Continua, st1) \<Rightarrow> listen_for_stop stop_words callback ps st1)"

text \<open>
  \<^verbatim>\<open>aguardar_palavra_parada\<close>: reset the flag, replace the queue by a new one, start
  the thread.  \<open>preparo\<close> says whether the two statements before the loop
  (\<^verbatim>\<open>_get_microphone()\<close> and the first reading of the clock) succeed; if not, the
  outer handler puts the error event.  The thread is run here to the end of the
  passes supplied.
\<close>

definition aguardar_palavra_parada ::
  "string list \<Rightarrow> (string \<Rightarrow> retorno_callback) \<Rightarrow> bool \<Rightarrow> passo list \<Rightarrow> stt_fraco
     \<Rightarrow> andamento \<times> stt_fraco" where
  "aguardar_palavra_parada stop_words callback preparo passos st =
    (let st0 = st\<lparr>stop_word_detected := False, stop_word_queue := []\<rparr>
     in if \<not> preparo then (Saiu, put (NaoDetectado ''error'') st0)
        else listen_for_stop stop_words callback passos st0)"

definition verificar_palavra_parada_detectada :: "stt_fraco \<Rightarrow> evento_parada option \<times> stt_fraco" where
  "verificar_palavra_parada_detectada st =
    (case stop_word_queue st of
       [] \<Rightarrow> (None, st)
     | e # q \<Rightarrow> (Some e, st\<lparr>stop_word_queue := q\<rparr>))"


subsection \<open>Example turns\<close>

text \<open>
  Five environments used to run the model: a turn that succeeds, one where the agent
  reports failure, one where the agent raises, one where the agent succeeds but the
  callback never signals, and one where the transcript is empty.
\<close>

definition env_sucesso :: ambiente where
  "env_sucesso =
    \<lparr>sinal = False, wake = WakeDetected ''NERO OUVIR'', microfone = True,
     escuta = ListenAudio, transcrito = SttText ''que horas sao'',
     agente = AgentResult \<lparr>resultado = ''Sao dez horas'', sucesso = True\<rparr>,
     respostas = [(''Sao dez horas'', True)]\<rparr>"

definition env_falha_agente :: ambiente where
  "env_falha_agente =
    env_sucesso\<lparr>agente := AgentResult \<lparr>resultado = [], sucesso = False\<rparr>, respostas := []\<rparr>"

definition env_agente_levanta :: ambiente where
  "env_agente_levanta = env_sucesso\<lparr>agente := AgentRaised, respostas := []\<rparr>"

definition env_sem_sinal :: ambiente where
  "env_sem_sinal = env_sucesso\<lparr>respostas := []\<rparr>"

definition env_transcricao_vazia :: ambiente where
  "env_transcricao_vazia = env_sucesso\<lparr>transcrito := SttText []\<rparr>"

section \<open>Properties of the state machine\<close>

lemma map_of_ESTADOS_None: "map_of ESTADOS e = None \<longleftrightarrow> e \<notin> estados_validos"
  by (simp add: estados_validos_def map_of_eq_None_iff)

lemma transitar_valido:
  assumes "e \<in> estados_validos"
  shows "fst (transitar e s) = True" and "estado_atual (snd (transitar e s)) = e"
proof -
  from assms obtain m where m: "map_of ESTADOS e = Some m"
    using map_of_ESTADOS_None [of e] by (cases "map_of ESTADOS e") auto
  show "fst (transitar e s) = True"
    by (simp add: transitar_def m Let_def)
  show "estado_atual (snd (transitar e s)) = e"
    by (simp add: transitar_def m Let_def registrar_def)
qed

lemma transitar_mesmo:
  assumes "e \<in> estados_validos" and "estado_atual s = e"
  shows "transitar e s = (True, s)"
proof -
  from assms(1) obtain m where m: "map_of ESTADOS e = Some m"
    using map_of_ESTADOS_None [of e] by (cases "map_of ESTADOS e") auto
  show ?thesis using assms(2) by (simp add: transitar_def m)
qed

lemma transitar_todos_validos:
  "set es \<subseteq> estados_validos \<Longrightarrow>
     fst (transitar_todos es s) = replicate (length es) True \<and>
     estado_atual (snd (transitar_todos es s)) = (if es = [] then estado_atual s else last es)"
proof (induction es arbitrary: s)
  case Nil
  then show ?case by simp
next
  case (Cons e es)
  then have e: "e \<in> estados_validos" and es: "set es \<subseteq> estados_validos" by auto
  obtain r s1 where t: "transitar e s = (r, s1)" by (cases "transitar e s")
  have r: "r = True" and s1: "estado_atual s1 = e"
    using transitar_valido [OF e, of s] t by auto
  obtain rs s2 where tt: "transitar_todos es s1 = (rs, s2)" by (cases "transitar_todos es s1")
  from Cons.IH [OF es, of s1] tt
  have rs: "rs = replicate (length es) True"
    and s2: "estado_atual s2 = (if es = [] then estado_atual s1 else last es)" by auto
  show ?case using r s1 rs s2 by (simp add: t tt)
qed

text \<open>
  C2.  Whatever the current state, a target that is not a key of \<^verbatim>\<open>ESTADOS\<close> makes
  \<^verbatim>\<open>transitar\<close> return \<^verbatim>\<open>False\<close>; the observable state (the property \<^verbatim>\<open>estado\<close>)
  is what it was, and so are the other attributes; only the error record is added.
\<close>

theorem C2_transitar_desconhecido:
  assumes "alvo \<notin> estados_validos"
  shows "fst (transitar alvo s) = False \<and>
         estado (snd (transitar alvo s)) = estado s \<and>
         snd (transitar alvo s) =
           s\<lparr>efeitos := efeitos s @ [Log ''ERROR'' (''Invalid state: '' @ alvo)]\<rparr>"
proof -
  from assms have n: "map_of ESTADOS alvo = None" by (simp add: map_of_ESTADOS_None)
  have "fst (transitar alvo s) = False" by (simp add: transitar_def n)
  moreover have "estado (snd (transitar alvo s)) = estado s"
    by (simp add: transitar_def n estado_def registrar_def)
  moreover have "snd (transitar alvo s) =
      s\<lparr>efeitos := efeitos s @ [Log ''ERROR'' (''Invalid state: '' @ alvo)]\<rparr>"
    by (simp add: transitar_def n registrar_def)
  ultimately show ?thesis by blast
qed

theorem C2_witness:
  "''UNKNOWN'' \<notin> estados_validos \<and>
   fst (transitar ''UNKNOWN'' \<lparr>estado_atual = ''GRAVANDO'', running = True,
                                recording_complete = False, efeitos = []\<rparr>) = False \<and>
   estado (snd (transitar ''UNKNOWN'' \<lparr>estado_atual = ''GRAVANDO'', running = True,
                                recording_complete = False, efeitos = []\<rparr>)) = ''GRAVANDO''"
proof -
  have h: "''UNKNOWN'' \<notin> estados_validos"
    by (simp add: estados_validos_def ESTADOS_def)
  show ?thesis
    using h C2_transitar_desconhecido [OF h,
      of "\<lparr>estado_atual = ''GRAVANDO'', running = True, recording_complete = False, efeitos = []\<rparr>"]
    by (simp add: estado_def)
qed

text \<open>
  C3.  For every sequence of names taken from \<^verbatim>\<open>ESTADOS\<close>, every call returns
  \<^verbatim>\<open>True\<close> and the observable state after each call is the name just passed, so
  at the end it is the last name (the state is untouched by the empty sequence).  A call with the current state changes nothing at
  all, so \<^verbatim>\<open>transitar(S); transitar(S)\<close> ends in \<open>S\<close> and the second call is a no-op.
\<close>

theorem C3_transitar_sequencia:
  assumes "set es \<subseteq> estados_validos" and "e \<in> estados_validos"
  shows "fst (transitar_todos es s) = replicate (length es) True \<and>
         estado (snd (transitar_todos es s)) = (if es = [] then estado s else last es) \<and>
         (\<forall>k < length es. estado (snd (transitar_todos (take (Suc k) es) s)) = es ! k) \<and>
         transitar e (snd (transitar e s)) = (True, snd (transitar e s)) \<and>
         estado (snd (transitar_todos [e, e] s)) = e"
proof -
  have "fst (transitar_todos es s) = replicate (length es) True"
    using transitar_todos_validos [OF assms(1), of s] by simp
  moreover have "estado (snd (transitar_todos es s)) = (if es = [] then estado s else last es)"
    using transitar_todos_validos [OF assms(1), of s] by (simp add: estado_def)
  moreover have "\<forall>k < length es. estado (snd (transitar_todos (take (Suc k) es) s)) = es ! k"
  proof (intro allI impI)
    fix k assume k: "k < length es"
    have "set (take (Suc k) es) \<subseteq> estados_validos"
      using assms(1) set_take_subset [of "Suc k" es] by blast
    from transitar_todos_validos [OF this, of s] k
    show "estado (snd (transitar_todos (take (Suc k) es) s)) = es ! k"
      by (simp add: estado_def take_Suc_conv_app_nth)
  qed
  moreover have "transitar e (snd (transitar e s)) = (True, snd (transitar e s))"
    using transitar_mesmo [OF assms(2)] transitar_valido(2) [OF assms(2), of s] by simp
  moreover have "estado (snd (transitar_todos [e, e] s)) = e"
  proof -
    have "set [e, e] \<subseteq> estados_validos" using assms(2) by simp
    from transitar_todos_validos [OF this, of s] show ?thesis by (simp add: estado_def)
  qed
  ultimately show ?thesis by blast
qed

theorem C3_witness:
  "set [''AGUARDANDO'', ''GRAVANDO'', ''GRAVANDO'', ''DESCANSO''] \<subseteq> estados_validos \<and>
   ''PROCESSANDO'' \<in> estados_validos \<and>
   fst (transitar_todos [''AGUARDANDO'', ''GRAVANDO'', ''GRAVANDO'', ''DESCANSO'']
          \<lparr>estado_atual = ''DESCANSO'', running = True, recording_complete = False, efeitos = []\<rparr>)
     = [True, True, True, True] \<and>
   estado (snd (transitar_todos [''AGUARDANDO'', ''GRAVANDO'', ''GRAVANDO'', ''DESCANSO'']
          \<lparr>estado_atual = ''DESCANSO'', running = True, recording_complete = False, efeitos = []\<rparr>))
     = ''DESCANSO'' \<and>
   estado (snd (transitar_todos [''PROCESSANDO'', ''PROCESSANDO'']
          \<lparr>estado_atual = ''DESCANSO'', running = True, recording_complete = False, efeitos = []\<rparr>))
     = ''PROCESSANDO''"
proof -
  have h1: "set [''AGUARDANDO'', ''GRAVANDO'', ''GRAVANDO'', ''DESCANSO''] \<subseteq> estados_validos"
    by (simp add: estados_validos_def ESTADOS_def)
  have h2: "''PROCESSANDO'' \<in> estados_validos"
    by (simp add: estados_validos_def ESTADOS_def)
  show ?thesis
    using h1 h2 C3_transitar_sequencia [OF h1 h2,
      of "\<lparr>estado_atual = ''DESCANSO'', running = True, recording_complete = False, efeitos = []\<rparr>"]
    by (simp add: numeral_eq_Suc)
qed

section \<open>Properties of the spoken summary\<close>

lemma length_reticencias: "length reticencias = 3"
  by (simp add: reticencias_def)

text \<open>
  C10.  The summary of the empty text is empty; a text of at most 200 code points is
  returned as it is; a longer one gives a prefix of the text followed by three dots,
  at most 203 code points in all.
\<close>

theorem C10_gerar_resumo_tts:
  "gerar_resumo_tts [] = [] \<and>
   (length txt \<le> 200 \<longrightarrow> gerar_resumo_tts txt = txt) \<and>
   (200 < length txt \<longrightarrow>
      length (gerar_resumo_tts txt) \<le> 203 \<and>
      (\<exists>p. prefix p txt \<and> gerar_resumo_tts txt = p @ reticencias))"
proof (intro conjI impI)
  show "gerar_resumo_tts [] = []" by (simp add: gerar_resumo_tts_def)
next
  assume "length txt \<le> 200"
  then show "gerar_resumo_tts txt = txt" by (simp add: gerar_resumo_tts_def)
next
  assume l: "200 < length txt"
  define t0 where "t0 = take 200 txt"
  define ls where "ls = rfind t0 espaco"
  define t1 where "t1 = (if 10 * ls > 8 * int 200 then take (nat ls) t0 else t0)"
  have len0: "length t0 = 200" using l by (simp add: t0_def)
  have len1: "length t1 \<le> 200" using len0 by (simp add: t1_def)
  have pre: "prefix t1 txt"
    by (simp add: t1_def t0_def take_is_prefix)
  have ne: "txt \<noteq> []" using l by auto
  have res: "gerar_resumo_tts txt = t1 @ reticencias"
    using l ne len1 by (simp add: gerar_resumo_tts_def Let_def t1_def ls_def t0_def)
  show "length (gerar_resumo_tts txt) \<le> 203"
    using len1 by (simp add: res length_reticencias)
  show "\<exists>p. prefix p txt \<and> gerar_resumo_tts txt = p @ reticencias"
    using pre res by blast
qed

theorem C10_witness:
  "length [104, 105 :: nat] \<le> 200 \<and> gerar_resumo_tts [104, 105] = [104, 105] \<and>
   200 < length (replicate 180 97 @ [32] @ replicate 20 (97::nat)) \<and>
   gerar_resumo_tts (replicate 180 97 @ [32] @ replicate 20 97) = replicate 180 97 @ reticencias \<and>
   length (gerar_resumo_tts (replicate 180 97 @ [32] @ replicate 20 97)) \<le> 203"
proof -
  have v: "gerar_resumo_tts (replicate 180 97 @ [32] @ replicate 20 97)
             = replicate 180 97 @ reticencias"
    by code_simp
  show ?thesis
    using C10_gerar_resumo_tts [of "[104, 105]"]
      C10_gerar_resumo_tts [of "replicate 180 97 @ [32] @ replicate 20 97"] v
    by simp
qed

section \<open>Properties of the orchestrator\<close>

text \<open>
  The state methods are first summarised one by one: what each returns, and what it
  does to every field of the assistant, the trace included.  The turn is then put
  together from these summaries, so that no proof unfolds more than one method.
\<close>

lemma destinos_append: "destinos (xs @ ys) = destinos xs @ destinos ys"
  by (induction xs rule: destinos.induct) simp_all

lemma chamadas_agente_append: "chamadas_agente (xs @ ys) = chamadas_agente xs @ chamadas_agente ys"
  by (induction xs rule: chamadas_agente.induct) simp_all

lemma transitar_forma:
  assumes "map_of ESTADOS e = Some m"
  shows "transitar e s = (True, s\<lparr>estado_atual := e,
             efeitos := efeitos s @ (if estado_atual s = e then []
                else [Transicao (estado_atual s) e, Log ''DEBUG'' (''State meaning: '' @ m)])\<rparr>)"
  using assms by (cases "estado_atual s = e") (auto simp: transitar_def Let_def registrar_def)

lemma transitar_nomes:
  "transitar ''DESCANSO'' s = (True, s\<lparr>estado_atual := ''DESCANSO'',
     efeitos := efeitos s @ (if estado_atual s = ''DESCANSO'' then [] else
       [Transicao (estado_atual s) ''DESCANSO'',
        Log ''DEBUG'' ''State meaning: Idle - Waiting for wake word''])\<rparr>)"
  "transitar ''AGUARDANDO'' s = (True, s\<lparr>estado_atual := ''AGUARDANDO'',
     efeitos := efeitos s @ (if estado_atual s = ''AGUARDANDO'' then [] else
       [Transicao (estado_atual s) ''AGUARDANDO'',
        Log ''DEBUG'' ''State meaning: Waiting - Wake word detected, listening for prompt''])\<rparr>)"
  "transitar ''GRAVANDO'' s = (True, s\<lparr>estado_atual := ''GRAVANDO'',
     efeitos := efeitos s @ (if estado_atual s = ''GRAVANDO'' then [] else
       [Transicao (estado_atual s) ''GRAVANDO'',
        Log ''DEBUG'' ''State meaning: Recording - Capturing user prompt''])\<rparr>)"
  "transitar ''PROCESSANDO'' s = (True, s\<lparr>estado_atual := ''PROCESSANDO'',
     efeitos := efeitos s @ (if estado_atual s = ''PROCESSANDO'' then [] else
       [Transicao (estado_atual s) ''PROCESSANDO'',
        Log ''DEBUG'' ''State meaning: Processing - Sending to Claude Agent''])\<rparr>)"
  "transitar ''RESPONDENDO'' s = (True, s\<lparr>estado_atual := ''RESPONDENDO'',
     efeitos := efeitos s @ (if estado_atual s = ''RESPONDENDO'' then [] else
       [Transicao (estado_atual s) ''RESPONDENDO'',
        Log ''DEBUG'' ''State meaning: Responding - Playing TTS response''])\<rparr>)"
  by (simp_all add: transitar_forma ESTADOS_def)


subsection \<open>What each state method does to the assistant\<close>

lemma descanso_forma:
  "fst (estado_descanso env s) = (wake env = WakeNotDetected \<longrightarrow> \<not> sinal env \<and> running s)"
  "estado_atual (snd (estado_descanso env s)) = ''DESCANSO''"
  "running (snd (estado_descanso env s)) = (running s \<and> \<not> sinal env)"
  "recording_complete (snd (estado_descanso env s)) = recording_complete s"
  "efeitos (snd (estado_descanso env s)) = efeitos s @
      (if estado_atual s = ''DESCANSO'' then [] else
         [Transicao (estado_atual s) ''DESCANSO'',
          Log ''DEBUG'' ''State meaning: Idle - Waiting for wake word'']) @
      [Log ''LISTENING'' (''Say '' @ [CHR 0x27] @ ''NERO OUVIR'' @ [CHR 0x27] @ '' to activate...''),
       Chamada DetectarWakeWord] @
      (if sinal env then [Log ''INFO'' ''Shutdown signal received''] else []) @
      (case wake env of
         WakeDetected palavra \<Rightarrow> [Log ''COMPLETE'' (''Wake word detected: '' @ palavra)]
       | WakeNotDetected \<Rightarrow> []
       | WakeRaised \<Rightarrow> [Log ''ERROR'' ''Error in DESCANSO state''])"
  by (cases "wake env"; cases "sinal env";
      simp add: estado_descanso_def transitar_nomes(1) Let_def registrar_def signal_handler_def)+

lemma aguardando_forma:
  "fst (estado_aguardando s) = True"
  "estado_atual (snd (estado_aguardando s)) = ''AGUARDANDO''"
  "running (snd (estado_aguardando s)) = running s"
  "recording_complete (snd (estado_aguardando s)) = recording_complete s"
  "efeitos (snd (estado_aguardando s)) = efeitos s @
      (if estado_atual s = ''AGUARDANDO'' then [] else
         [Transicao (estado_atual s) ''AGUARDANDO'',
          Log ''DEBUG'' ''State meaning: Waiting - Wake word detected, listening for prompt'']) @
      [Log ''RECORDING'' ''Starting recording session...'',
       Log ''INFO'' (''Speak your prompt. Say '' @ [CHR 0x27] @ ''NERO ENVIAR'' @ [CHR 0x27] @ '' when done.'')]"
  by (simp_all add: estado_aguardando_def transitar_nomes(2) Let_def registrar_def)

lemma gravando_forma:
  "fst (estado_gravando env s) =
     (if \<not> microfone env then Inl Excecao
      else case escuta env of
          ListenAudio \<Rightarrow> (case transcrito env of SttText t \<Rightarrow> Inr t | SttRaised \<Rightarrow> Inr [])
        | _ \<Rightarrow> Inr [])"
  "estado_atual (snd (estado_gravando env s)) = ''GRAVANDO''"
  "running (snd (estado_gravando env s)) = running s"
  "recording_complete (snd (estado_gravando env s)) = recording_complete s"
  "efeitos (snd (estado_gravando env s)) = efeitos s @
      (if estado_atual s = ''GRAVANDO'' then [] else
         [Transicao (estado_atual s) ''GRAVANDO'',
          Log ''DEBUG'' ''State meaning: Recording - Capturing user prompt'']) @
      [Log ''RECORDING'' ''Listening for your prompt...'', Chamada Microphone] @
      (if \<not> microfone env then []
       else case escuta env of
          OpenRaised \<Rightarrow> [Log ''ERROR'' ''Recording failed'']
        | ListenRaised \<Rightarrow>
            [Log ''INFO'' ''Recording... (max 600s)'', Chamada Listen,
             Log ''ERROR'' ''Recording failed'']
        | ListenWaitTimeout \<Rightarrow>
            [Log ''INFO'' ''Recording... (max 600s)'', Chamada Listen,
             Log ''WARNING'' ''No speech detected (timeout)'']
        | ListenAudio \<Rightarrow>
            [Log ''INFO'' ''Recording... (max 600s)'', Chamada Listen, Chamada TranscreverAudioFile] @
            (case transcrito env of
               SttRaised \<Rightarrow> [Log ''ERROR'' ''Recording failed'']
             | SttText t \<Rightarrow>
                 if t \<noteq> [] then [Log ''TRANSCRIPT'' ([CHR 0x27] @ t @ [CHR 0x27])]
                 else [Log ''WARNING'' ''Transcription failed or empty'']))"
  by (cases "escuta env"; cases "transcrito env"; cases "microfone env";
      simp add: estado_gravando_def transitar_nomes(3) Let_def registrar_def)+

lemma respostas_forma:
  "estado_atual (foldl (\<lambda>t r. on_agent_response r t) s rs) = estado_atual s"
  "running (foldl (\<lambda>t r. on_agent_response r t) s rs) = running s"
  "recording_complete (foldl (\<lambda>t r. on_agent_response r t) s rs)
     = (recording_complete s \<or> list_ex snd rs)"
  "efeitos (foldl (\<lambda>t r. on_agent_response r t) s rs) = efeitos s @
     concat (map (\<lambda>r. [Log ''DEBUG'' (''Agent response callback: '' @ [CHR 0x27] @
                          take 50 (fst r) @ ''...'' @ [CHR 0x27]),
                       Chamada (Falar (fst r))]) rs)"
  by (induction rs arbitrary: s;
      simp add: on_agent_response_def Let_def registrar_def event_set_def)+

lemma wait_forma:
  "fst (wait_for_recording_complete rs s) = (recording_complete s \<or> list_ex snd rs)"
  "estado_atual (snd (wait_for_recording_complete rs s)) = estado_atual s"
  "running (snd (wait_for_recording_complete rs s)) = running s"
  "recording_complete (snd (wait_for_recording_complete rs s))
     = (recording_complete s \<or> list_ex snd rs)"
  "efeitos (snd (wait_for_recording_complete rs s)) = efeitos s @
     (if recording_complete s then [] else
      concat (map (\<lambda>r. [Log ''DEBUG'' (''Agent response callback: '' @ [CHR 0x27] @
                          take 50 (fst r) @ ''...'' @ [CHR 0x27]),
                       Chamada (Falar (fst r))]) rs))"
  by (simp_all add: wait_for_recording_complete_def Let_def respostas_forma)

lemma processando_forma:
  assumes "t \<noteq> []"
  shows
  "fst (estado_processando env t s) =
     ((\<exists>r. agente env = AgentResult r \<and> sucesso r) \<and> (recording_complete s \<or> list_ex snd (respostas env)))"
  "estado_atual (snd (estado_processando env t s)) = ''PROCESSANDO''"
  "running (snd (estado_processando env t s)) = running s"
  "efeitos (snd (estado_processando env t s)) = efeitos s @
      (if estado_atual s = ''PROCESSANDO'' then [] else
         [Transicao (estado_atual s) ''PROCESSANDO'',
          Log ''DEBUG'' ''State meaning: Processing - Sending to Claude Agent'']) @
      [Log ''AGENT'' ''Sending to Claude Agent SDK...'', Chamada (ProcessarPrompt t)] @
      (case agente env of
         AgentRaised \<Rightarrow> [Log ''ERROR'' ''Processing failed'']
       | AgentResult r \<Rightarrow>
           if sucesso r then
             [Log ''COMPLETE'' ''Agent processing completed'',
              Log ''INFO'' ''Waiting for audio response...''] @
             (if recording_complete s then [] else
                concat (map (\<lambda>r. [Log ''DEBUG'' (''Agent response callback: '' @ [CHR 0x27] @
                          take 50 (fst r) @ ''...'' @ [CHR 0x27]),
                       Chamada (Falar (fst r))]) (respostas env))) @
             (if recording_complete s \<or> list_ex snd (respostas env) then []
              else [Log ''WARNING'' ''TTS response timeout''])
           else [Log ''ERROR'' ''Agent processing failed''])"
  using assms
  by (cases "agente env";
      simp add: estado_processando_def transitar_nomes(4) Let_def registrar_def wait_forma
        case_prod_beta)+

lemma respondendo_forma:
  "estado_atual (estado_respondendo s) = ''DESCANSO''"
  "running (estado_respondendo s) = running s"
  "efeitos (estado_respondendo s) = efeitos s @
      (if estado_atual s = ''RESPONDENDO'' then [] else
         [Transicao (estado_atual s) ''RESPONDENDO'',
          Log ''DEBUG'' ''State meaning: Responding - Playing TTS response'']) @
      [Log ''COMPLETE'' ''Response complete'',
       Transicao ''RESPONDENDO'' ''DESCANSO'',
       Log ''DEBUG'' ''State meaning: Idle - Waiting for wake word'',
       Log ''DONE'' ''Ready for next command'']"
  by (simp_all add: estado_respondendo_def transitar_nomes(1,5) Let_def registrar_def)

text \<open>
  The turn that reaches \<^verbatim>\<open>estado_processando\<close>: the wake phase returned \<^verbatim>\<open>True\<close> and
  the recording phase returned the transcript \<open>t\<close>, not empty.
\<close>

lemmas formas = descanso_forma aguardando_forma gravando_forma processando_forma
  respondendo_forma

lemma destinos_resp [simp]: "destinos (concat (map (\<lambda>r. [Log a (f r), Chamada (g r)]) rs)) = []"
  by (induction rs) simp_all

lemma chamadas_resp [simp]:
  "chamadas_agente (concat (map (\<lambda>r. [Log a (f r), Chamada (Falar (g r))]) rs)) = []"
  by (induction rs) simp_all

lemma log_resp [simp]:
  "a \<noteq> b \<Longrightarrow> Log b m \<notin> set (concat (map (\<lambda>r. [Log a (f r), Chamada (g r)]) rs))"
  by (induction rs) simp_all

lemma turno_despacha:
  assumes "fst (estado_descanso env s)" and "microfone env" and "escuta env = ListenAudio"
    and "transcrito env = SttText t" and "t \<noteq> []"
  shows "fst (iteracao env s) = Continue"
    and "estado_atual (snd (iteracao env s)) = ''DESCANSO''"
    and "running (snd (iteracao env s)) = running (snd (estado_descanso env s))"
  using assms
  by (simp_all add: iteracao_def case_prod_beta Let_def formas event_clear_def
        transitar_nomes(1) registrar_def)



lemma turno_despacha_novos:
  assumes "fst (estado_descanso env s)" and "microfone env" and "escuta env = ListenAudio"
    and "transcrito env = SttText t" and "t \<noteq> []"
  shows "novos s (snd (iteracao env s)) =
    (if estado_atual s = ''DESCANSO'' then [] else
       [Transicao (estado_atual s) ''DESCANSO'',
        Log ''DEBUG'' ''State meaning: Idle - Waiting for wake word'']) @
    [Log ''LISTENING'' (''Say '' @ [CHR 0x27] @ ''NERO OUVIR'' @ [CHR 0x27] @ '' to activate...''),
     Chamada DetectarWakeWord] @
    (if sinal env then [Log ''INFO'' ''Shutdown signal received''] else []) @
    (case wake env of
       WakeDetected palavra \<Rightarrow> [Log ''COMPLETE'' (''Wake word detected: '' @ palavra)]
     | WakeNotDetected \<Rightarrow> []
     | WakeRaised \<Rightarrow> [Log ''ERROR'' ''Error in DESCANSO state'']) @
    [Transicao ''DESCANSO'' ''AGUARDANDO'',
     Log ''DEBUG'' ''State meaning: Waiting - Wake word detected, listening for prompt'',
     Log ''RECORDING'' ''Starting recording session...'',
     Log ''INFO'' (''Speak your prompt. Say '' @ [CHR 0x27] @ ''NERO ENVIAR'' @ [CHR 0x27] @ '' when done.''),
     Transicao ''AGUARDANDO'' ''GRAVANDO'',
     Log ''DEBUG'' ''State meaning: Recording - Capturing user prompt'',
     Log ''RECORDING'' ''Listening for your prompt...'',
     Chamada Microphone,
     Log ''INFO'' ''Recording... (max 600s)'',
     Chamada Listen,
     Chamada TranscreverAudioFile,
     Log ''TRANSCRIPT'' ([CHR 0x27] @ t @ [CHR 0x27]),
     Transicao ''GRAVANDO'' ''PROCESSANDO'',
     Log ''DEBUG'' ''State meaning: Processing - Sending to Claude Agent'',
     Log ''AGENT'' ''Sending to Claude Agent SDK...'',
     Chamada (ProcessarPrompt t)] @
    (if (\<exists>r. agente env = AgentResult r \<and> sucesso r)
     then
       [Log ''COMPLETE'' ''Agent processing completed'',
        Log ''INFO'' ''Waiting for audio response...''] @
       concat (map (\<lambda>r. [Log ''DEBUG'' (''Agent response callback: '' @ [CHR 0x27] @
                            take 50 (fst r) @ ''...'' @ [CHR 0x27]),
                          Chamada (Falar (fst r))]) (respostas env)) @
       (if list_ex snd (respostas env)
        then [Transicao ''PROCESSANDO'' ''RESPONDENDO'',
              Log ''DEBUG'' ''State meaning: Responding - Playing TTS response'',
              Log ''COMPLETE'' ''Response complete'',
              Transicao ''RESPONDENDO'' ''DESCANSO'',
              Log ''DEBUG'' ''State meaning: Idle - Waiting for wake word'',
              Log ''DONE'' ''Ready for next command'']
        else [Log ''WARNING'' ''TTS response timeout'',
              Log ''WARNING'' ''Processing failed, returning to idle'',
              Transicao ''PROCESSANDO'' ''DESCANSO'',
              Log ''DEBUG'' ''State meaning: Idle - Waiting for wake word''])
     else
       [Log ''ERROR'' (if agente env = AgentRaised then ''Processing failed''
                       else ''Agent processing failed''),
        Log ''WARNING'' ''Processing failed, returning to idle'',
        Transicao ''PROCESSANDO'' ''DESCANSO'',
        Log ''DEBUG'' ''State meaning: Idle - Waiting for wake word''])"
  using assms
  by (cases "agente env")
     (simp_all add: iteracao_def case_prod_beta Let_def formas event_clear_def
        transitar_nomes(1) registrar_def novos_def)

lemma turno_despacha_efeitos:
  assumes "fst (estado_descanso env s)" and "microfone env" and "escuta env = ListenAudio"
    and "transcrito env = SttText t" and "t \<noteq> []"
  shows "destinos (novos s (snd (iteracao env s))) =
           (if estado_atual s = ''DESCANSO'' then [] else [''DESCANSO'']) @
           [''AGUARDANDO'', ''GRAVANDO'', ''PROCESSANDO''] @
           (if (\<exists>r. agente env = AgentResult r \<and> sucesso r) \<and> list_ex snd (respostas env)
            then [''RESPONDENDO'', ''DESCANSO''] else [''DESCANSO''])"
    and "chamadas_agente (novos s (snd (iteracao env s))) = [t]"
    and "Log ''ERROR'' ''Agent processing failed'' \<in> set (novos s (snd (iteracao env s)))
           \<longleftrightarrow> (\<exists>r. agente env = AgentResult r \<and> \<not> sucesso r)"
    and "Log ''ERROR'' ''Processing failed'' \<in> set (novos s (snd (iteracao env s)))
           \<longleftrightarrow> agente env = AgentRaised"
    and "Log ''WARNING'' ''TTS response timeout'' \<in> set (novos s (snd (iteracao env s)))
           \<longleftrightarrow> (\<exists>r. agente env = AgentResult r \<and> sucesso r) \<and> \<not> list_ex snd (respostas env)"
    and "Log ''WARNING'' ''Processing failed, returning to idle'' \<in> set (novos s (snd (iteracao env s)))
           \<longleftrightarrow> \<not> ((\<exists>r. agente env = AgentResult r \<and> sucesso r) \<and> list_ex snd (respostas env))"
  unfolding turno_despacha_novos [OF assms]
  by (cases "wake env"; cases "agente env";
      simp add: destinos_append chamadas_agente_append)+

text \<open>The turn up to the end of the recording phase, and the turn with an empty transcript.\<close>

lemma gravando_retorno:
  "fst (estado_gravando env s) = Inr t \<and> t \<noteq> [] \<longleftrightarrow>
     microfone env \<and> escuta env = ListenAudio \<and> transcrito env = SttText t \<and> t \<noteq> []"
  by (cases "escuta env"; cases "transcrito env"; simp add: gravando_forma(1))

lemma gravando_cauda:
  "destinos (novos s (snd (estado_gravando env s))) =
     (if estado_atual s = ''GRAVANDO'' then [] else [''GRAVANDO''])"
  "chamadas_agente (novos s (snd (estado_gravando env s))) = []"
  by (cases "escuta env"; cases "transcrito env";
      simp add: gravando_forma(5) novos_def destinos_append chamadas_agente_append)+

lemma descanso_cauda:
  "destinos (novos s (snd (estado_descanso env s))) =
     (if estado_atual s = ''DESCANSO'' then [] else [''DESCANSO''])"
  "chamadas_agente (novos s (snd (estado_descanso env s))) = []"
  by (cases "wake env";
      simp add: descanso_forma(5) novos_def destinos_append chamadas_agente_append)+

lemma aguardando_cauda:
  "destinos (novos s (snd (estado_aguardando s))) =
     (if estado_atual s = ''AGUARDANDO'' then [] else [''AGUARDANDO''])"
  "chamadas_agente (novos s (snd (estado_aguardando s))) = []"
  by (simp_all add: aguardando_forma(5) novos_def destinos_append chamadas_agente_append)

lemma estende:
  "efeitos (snd (estado_descanso env s)) = efeitos s @ novos s (snd (estado_descanso env s))"
  "efeitos (snd (estado_aguardando s)) = efeitos s @ novos s (snd (estado_aguardando s))"
  "efeitos (snd (estado_gravando env s)) = efeitos s @ novos s (snd (estado_gravando env s))"
  by (simp_all add: novos_def descanso_forma(5) aguardando_forma(5) gravando_forma(5))

lemma novos_cat:
  assumes "efeitos b = efeitos a @ x" and "efeitos c = efeitos b @ y"
  shows "novos a c = x @ y" and "efeitos c = efeitos a @ novos a c"
  by (simp_all add: novos_def assms)

lemma ate_gravar:
  fixes env s
  defines "s1 \<equiv> snd (estado_descanso env s)"
  defines "s2 \<equiv> snd (estado_aguardando s1)"
  defines "s3 \<equiv> snd (estado_gravando env s2)"
  shows "destinos (novos s s3) =
           (if estado_atual s = ''DESCANSO'' then [] else [''DESCANSO'']) @ [''AGUARDANDO'', ''GRAVANDO'']"
    and "chamadas_agente (novos s s3) = []"
    and "efeitos s3 = efeitos s @ novos s s3"
    and "estado_atual s3 = ''GRAVANDO''"
proof -
  have a: "novos s s2 = novos s s1 @ novos s1 s2" "efeitos s2 = efeitos s @ novos s s2"
    unfolding s1_def s2_def by (rule novos_cat [OF estende(1) estende(2)])+
  have b: "novos s s3 = novos s s2 @ novos s2 s3" "efeitos s3 = efeitos s @ novos s s3"
    unfolding s3_def by (rule novos_cat [OF a(2) estende(3)])+
  have e1: "estado_atual s1 = ''DESCANSO''" by (simp add: s1_def descanso_forma)
  have e2: "estado_atual s2 = ''AGUARDANDO''" by (simp add: s2_def aguardando_forma)
  show "destinos (novos s s3) =
           (if estado_atual s = ''DESCANSO'' then [] else [''DESCANSO'']) @ [''AGUARDANDO'', ''GRAVANDO'']"
    unfolding b(1) a(1) destinos_append
    unfolding s1_def s2_def s3_def descanso_cauda aguardando_cauda gravando_cauda
    using e1 e2 unfolding s1_def s2_def by simp
  show "chamadas_agente (novos s s3) = []"
    unfolding b(1) a(1) chamadas_agente_append
    unfolding s1_def s2_def s3_def descanso_cauda aguardando_cauda gravando_cauda by simp
  show "efeitos s3 = efeitos s @ novos s s3" by (rule b(2))
  show "estado_atual s3 = ''GRAVANDO''" by (simp add: s3_def gravando_forma)
qed

lemma turno_transcricao_vazia:
  assumes "fst (estado_descanso env s)"
    and "fst (estado_gravando env (snd (estado_aguardando (snd (estado_descanso env s))))) = Inr []"
  shows "fst (iteracao env s) = Continue"
    and "estado_atual (snd (iteracao env s)) = ''DESCANSO''"
    and "destinos (novos s (snd (iteracao env s))) =
           (if estado_atual s = ''DESCANSO'' then [] else [''DESCANSO'']) @
           [''AGUARDANDO'', ''GRAVANDO'', ''DESCANSO'']"
    and "chamadas_agente (novos s (snd (iteracao env s))) = []"
proof -
  define s3 where "s3 = snd (estado_gravando env (snd (estado_aguardando (snd (estado_descanso env s)))))"
  have it: "iteracao env s = (Continue, snd (transitar ''DESCANSO''
              (registrar (Log ''WARNING'' ''No transcription, returning to idle'') s3)))"
    using assms by (simp add: iteracao_def case_prod_beta Let_def aguardando_forma(1) s3_def)
  note g = ate_gravar [where env = env and s = s, folded s3_def]
  have ef: "efeitos (snd (iteracao env s)) = efeitos s3 @
      [Log ''WARNING'' ''No transcription, returning to idle'',
       Transicao ''GRAVANDO'' ''DESCANSO'',
       Log ''DEBUG'' ''State meaning: Idle - Waiting for wake word'']"
    by (simp add: it transitar_nomes(1) registrar_def g(4))
  have n: "novos s (snd (iteracao env s)) = novos s s3 @
      [Log ''WARNING'' ''No transcription, returning to idle'',
       Transicao ''GRAVANDO'' ''DESCANSO'',
       Log ''DEBUG'' ''State meaning: Idle - Waiting for wake word'']"
    by (rule novos_cat(1) [OF g(3) ef])
  show "fst (iteracao env s) = Continue" by (simp add: it)
  show "estado_atual (snd (iteracao env s)) = ''DESCANSO''"
    by (simp add: it transitar_nomes(1))
  show "destinos (novos s (snd (iteracao env s))) =
           (if estado_atual s = ''DESCANSO'' then [] else [''DESCANSO'']) @
           [''AGUARDANDO'', ''GRAVANDO'', ''DESCANSO'']"
    by (simp add: n destinos_append g(1))
  show "chamadas_agente (novos s (snd (iteracao env s))) = []"
    by (simp add: n chamadas_agente_append g(2))
qed

lemma turno_break:
  assumes "\<not> fst (estado_descanso env s)"
  shows "iteracao env s = (Break, snd (estado_descanso env s))"
  using assms by (simp add: iteracao_def case_prod_beta)

lemma turno_raise:
  assumes "fst (estado_descanso env s)" and "\<not> microfone env"
  shows "iteracao env s =
    (Raise, snd (estado_gravando env (snd (estado_aguardando (snd (estado_descanso env s))))))"
  using assms
  by (simp add: iteracao_def case_prod_beta Let_def aguardando_forma(1) gravando_forma(1))

text \<open>
  A turn makes the transition into \<^verbatim>\<open>PROCESSANDO\<close> exactly when the wake phase
  returned \<^verbatim>\<open>True\<close> and the recording phase returned a transcript that is not empty.
\<close>

lemma alcanca_processando:
  "''PROCESSANDO'' \<in> set (destinos (novos s (snd (iteracao env s)))) \<longleftrightarrow>
     fst (estado_descanso env s) \<and> microfone env \<and> escuta env = ListenAudio \<and>
     (\<exists>t. transcrito env = SttText t \<and> t \<noteq> [])"
proof (cases "fst (estado_descanso env s)")
  case False
  then show ?thesis by (simp add: turno_break descanso_cauda)
next
  case d: True
  show ?thesis
  proof (cases "microfone env")
    case False
    then show ?thesis using d by (simp add: turno_raise ate_gravar)
  next
    case m: True
    show ?thesis
    proof (cases "escuta env = ListenAudio \<and> (\<exists>t. transcrito env = SttText t \<and> t \<noteq> [])")
      case True
      then obtain t where "escuta env = ListenAudio" "transcrito env = SttText t" "t \<noteq> []"
        by blast
      from turno_despacha_efeitos(1) [OF d m this] show ?thesis using d m True by simp
    next
      case False
      then have "fst (estado_gravando env (snd (estado_aguardando (snd (estado_descanso env s))))) = Inr []"
        using m by (cases "escuta env"; cases "transcrito env"; simp add: gravando_forma(1))
      from turno_transcricao_vazia(3) [OF d this] show ?thesis using False by simp
    qed
  qed
qed

text \<open>
  C1 (as amended).  Every turn that enters \<^verbatim>\<open>PROCESSANDO\<close> ends the pass through the
  loop body normally with the machine in \<^verbatim>\<open>DESCANSO\<close>.  It goes through
  \<^verbatim>\<open>RESPONDENDO\<close> only when the agent reported success and the completion signal
  arrived before the wait gave up; on a failure reported by the agent, on an exception
  raised by the agent and on the response timeout the machine goes from
  \<^verbatim>\<open>PROCESSANDO\<close> straight to \<^verbatim>\<open>DESCANSO\<close>.
\<close>

theorem C1_saida_de_processando:
  assumes "''PROCESSANDO'' \<in> set (destinos (novos s (snd (iteracao env s))))"
  shows "fst (iteracao env s) = Continue \<and>
         estado (snd (iteracao env s)) = ''DESCANSO'' \<and>
         (\<exists>antes. ''PROCESSANDO'' \<notin> set antes \<and> ''RESPONDENDO'' \<notin> set antes \<and>
            destinos (novos s (snd (iteracao env s))) = antes @
              (if (\<exists>r. agente env = AgentResult r \<and> sucesso r) \<and> list_ex snd (respostas env)
               then [''PROCESSANDO'', ''RESPONDENDO'', ''DESCANSO'']
               else [''PROCESSANDO'', ''DESCANSO'']))"
proof -
  from assms obtain t where c: "fst (estado_descanso env s)" "microfone env"
      "escuta env = ListenAudio" "transcrito env = SttText t" "t \<noteq> []"
    unfolding alcanca_processando by blast
  let ?antes = "(if estado_atual s = ''DESCANSO'' then [] else [''DESCANSO'']) @
                  [''AGUARDANDO'', ''GRAVANDO'']"
  have "''PROCESSANDO'' \<notin> set ?antes" "''RESPONDENDO'' \<notin> set ?antes" by simp_all
  moreover have "destinos (novos s (snd (iteracao env s))) = ?antes @
      (if (\<exists>r. agente env = AgentResult r \<and> sucesso r) \<and> list_ex snd (respostas env)
       then [''PROCESSANDO'', ''RESPONDENDO'', ''DESCANSO'']
       else [''PROCESSANDO'', ''DESCANSO''])"
    unfolding turno_despacha_efeitos(1) [OF c] by simp
  ultimately show ?thesis
    using turno_despacha(1,2) [OF c] unfolding estado_def by blast
qed

lemma exemplo_alcanca:
  "fst (estado_descanso env_sucesso nero_inicial)"
  "fst (estado_descanso env_falha_agente nero_inicial)"
  "fst (estado_descanso env_agente_levanta nero_inicial)"
  "fst (estado_descanso env_sem_sinal nero_inicial)"
  "fst (estado_descanso env_transcricao_vazia nero_inicial)"
  by (simp_all add: descanso_forma(1) env_sucesso_def env_falha_agente_def
        env_agente_levanta_def env_sem_sinal_def env_transcricao_vazia_def)

text \<open>
  The turn in which the agent reports failure enters \<^verbatim>\<open>PROCESSANDO\<close> and never
  enters \<^verbatim>\<open>RESPONDENDO\<close>.
\<close>

theorem C1_counterexample:
  "''PROCESSANDO'' \<in> set (destinos (novos nero_inicial (snd (iteracao env_falha_agente nero_inicial)))) \<and>
   ''RESPONDENDO'' \<notin> set (destinos (novos nero_inicial (snd (iteracao env_falha_agente nero_inicial)))) \<and>
   destinos (novos nero_inicial (snd (iteracao env_falha_agente nero_inicial)))
     = [''AGUARDANDO'', ''GRAVANDO'', ''PROCESSANDO'', ''DESCANSO'']"
proof -
  have "destinos (novos nero_inicial (snd (iteracao env_falha_agente nero_inicial)))
     = [''AGUARDANDO'', ''GRAVANDO'', ''PROCESSANDO'', ''DESCANSO'']"
    by (subst turno_despacha_efeitos(1) [OF exemplo_alcanca(2), of "''que horas sao''"])
       (simp_all add: env_falha_agente_def env_sucesso_def nero_inicial_def)
  then show ?thesis by simp
qed

theorem C1_witness:
  "''PROCESSANDO'' \<in> set (destinos (novos nero_inicial (snd (iteracao env_sucesso nero_inicial)))) \<and>
   fst (iteracao env_sucesso nero_inicial) = Continue \<and>
   estado (snd (iteracao env_sucesso nero_inicial)) = ''DESCANSO'' \<and>
   destinos (novos nero_inicial (snd (iteracao env_sucesso nero_inicial)))
     = [''AGUARDANDO'', ''GRAVANDO'', ''PROCESSANDO'', ''RESPONDENDO'', ''DESCANSO'']"
proof -
  have d: "destinos (novos nero_inicial (snd (iteracao env_sucesso nero_inicial)))
     = [''AGUARDANDO'', ''GRAVANDO'', ''PROCESSANDO'', ''RESPONDENDO'', ''DESCANSO'']"
    by (subst turno_despacha_efeitos(1) [OF exemplo_alcanca(1), of "''que horas sao''"])
       (simp_all add: env_sucesso_def nero_inicial_def)
  then have h: "''PROCESSANDO'' \<in> set (destinos (novos nero_inicial (snd (iteracao env_sucesso nero_inicial))))"
    by simp
  show ?thesis using h d C1_saida_de_processando [OF h] by simp
qed

text \<open>
  C4.  In a turn whose recording phase returns the empty transcript,
  \<^verbatim>\<open>agent.processar_prompt\<close> is not called at all, the pass through the loop body ends
  normally and the machine is in \<^verbatim>\<open>DESCANSO\<close>.
\<close>

theorem C4_transcricao_vazia:
  assumes "fst (estado_descanso env s)"
    and "fst (estado_gravando env (snd (estado_aguardando (snd (estado_descanso env s))))) = Inr []"
  shows "chamadas_agente (novos s (snd (iteracao env s))) = [] \<and>
         length (chamadas_agente (novos s (snd (iteracao env s)))) = 0 \<and>
         fst (iteracao env s) = Continue \<and>
         estado (snd (iteracao env s)) = ''DESCANSO''"
  using turno_transcricao_vazia(1,2,4) [OF assms] by (simp add: estado_def)

theorem C4_witness:
  "fst (estado_descanso env_transcricao_vazia nero_inicial) \<and>
   fst (estado_gravando env_transcricao_vazia
         (snd (estado_aguardando (snd (estado_descanso env_transcricao_vazia nero_inicial))))) = Inr [] \<and>
   chamadas_agente (novos nero_inicial (snd (iteracao env_transcricao_vazia nero_inicial))) = [] \<and>
   estado (snd (iteracao env_transcricao_vazia nero_inicial)) = ''DESCANSO''"
proof -
  have g: "fst (estado_gravando env_transcricao_vazia
         (snd (estado_aguardando (snd (estado_descanso env_transcricao_vazia nero_inicial))))) = Inr []"
    by (simp add: gravando_forma(1) env_transcricao_vazia_def env_sucesso_def)
  show ?thesis
    using exemplo_alcanca(5) g C4_transcricao_vazia [OF exemplo_alcanca(5) g] by simp
qed

text \<open>
  C7.  In a turn that reaches \<^verbatim>\<open>PROCESSANDO\<close>, when the agent reports success and no
  run of the callback signals before the wait gives up, the turn is logged with the
  warning \<^verbatim>\<open>TTS response timeout\<close> and as a failed turn, not with the error of a
  reasoning failure, \<^verbatim>\<open>RESPONDENDO\<close> is not entered and the machine ends in
  \<^verbatim>\<open>DESCANSO\<close>.  A reasoning failure is logged with the error
  \<^verbatim>\<open>Agent processing failed\<close> and without the timeout warning.
\<close>

theorem C7_timeout_da_resposta:
  assumes "''PROCESSANDO'' \<in> set (destinos (novos s (snd (iteracao env s))))"
    and "agente env = AgentResult r"
  shows "(sucesso r \<and> \<not> list_ex snd (respostas env) \<longrightarrow>
            Log ''WARNING'' ''TTS response timeout'' \<in> set (novos s (snd (iteracao env s))) \<and>
            Log ''WARNING'' ''Processing failed, returning to idle'' \<in> set (novos s (snd (iteracao env s))) \<and>
            Log ''ERROR'' ''Agent processing failed'' \<notin> set (novos s (snd (iteracao env s))) \<and>
            Log ''ERROR'' ''Processing failed'' \<notin> set (novos s (snd (iteracao env s))) \<and>
            ''RESPONDENDO'' \<notin> set (destinos (novos s (snd (iteracao env s)))) \<and>
            fst (iteracao env s) = Continue \<and>
            estado (snd (iteracao env s)) = ''DESCANSO'') \<and>
         (\<not> sucesso r \<longrightarrow>
            Log ''ERROR'' ''Agent processing failed'' \<in> set (novos s (snd (iteracao env s))) \<and>
            Log ''WARNING'' ''TTS response timeout'' \<notin> set (novos s (snd (iteracao env s))))"
proof -
  from assms(1) obtain t where c: "fst (estado_descanso env s)" "microfone env"
      "escuta env = ListenAudio" "transcrito env = SttText t" "t \<noteq> []"
    unfolding alcanca_processando by blast
  note e = turno_despacha_efeitos [OF c] and d = turno_despacha(1,2) [OF c]
  show ?thesis
    unfolding e(1) e(3) e(4) e(5) e(6) d estado_def using assms(2) by simp
qed

theorem C7_witness:
  "''PROCESSANDO'' \<in> set (destinos (novos nero_inicial (snd (iteracao env_sem_sinal nero_inicial)))) \<and>
   agente env_sem_sinal = AgentResult \<lparr>resultado = ''Sao dez horas'', sucesso = True\<rparr> \<and>
   \<not> list_ex snd (respostas env_sem_sinal) \<and>
   Log ''WARNING'' ''TTS response timeout''
     \<in> set (novos nero_inicial (snd (iteracao env_sem_sinal nero_inicial))) \<and>
   Log ''ERROR'' ''Agent processing failed''
     \<notin> set (novos nero_inicial (snd (iteracao env_sem_sinal nero_inicial))) \<and>
   estado (snd (iteracao env_sem_sinal nero_inicial)) = ''DESCANSO''"
proof -
  have h: "''PROCESSANDO'' \<in> set (destinos (novos nero_inicial (snd (iteracao env_sem_sinal nero_inicial))))"
    unfolding alcanca_processando
    using exemplo_alcanca(4) by (simp add: env_sem_sinal_def env_sucesso_def)
  have a: "agente env_sem_sinal = AgentResult \<lparr>resultado = ''Sao dez horas'', sucesso = True\<rparr>"
    by (simp add: env_sem_sinal_def env_sucesso_def)
  have n: "\<not> list_ex snd (respostas env_sem_sinal)"
    by (simp add: env_sem_sinal_def env_sucesso_def)
  show ?thesis using h a n C7_timeout_da_resposta [OF h a] by simp
qed

text \<open>
  C8.  In a turn that reaches \<^verbatim>\<open>PROCESSANDO\<close>, when the agent returns a result with
  \<^verbatim>\<open>sucesso\<close> false, the pass through the loop body ends normally (no exception
  leaves it), the failure is logged, the machine is in \<^verbatim>\<open>DESCANSO\<close>, and the loop
  goes on with the next pass.
\<close>

theorem C8_falha_do_agente:
  assumes "''PROCESSANDO'' \<in> set (destinos (novos s (snd (iteracao env s))))"
    and "agente env = AgentResult r" and "\<not> sucesso r"
  shows "fst (iteracao env s) = Continue \<and>
         estado (snd (iteracao env s)) = ''DESCANSO'' \<and>
         Log ''ERROR'' ''Agent processing failed'' \<in> set (novos s (snd (iteracao env s))) \<and>
         Log ''WARNING'' ''Processing failed, returning to idle'' \<in> set (novos s (snd (iteracao env s))) \<and>
         (running s \<longrightarrow> run_loop (env # envs) s = run_loop envs (snd (iteracao env s))) \<and>
         fst (run_loop [env] s) \<noteq> Falha"
proof -
  from assms(1) obtain t where c: "fst (estado_descanso env s)" "microfone env"
      "escuta env = ListenAudio" "transcrito env = SttText t" "t \<noteq> []"
    unfolding alcanca_processando by blast
  note e = turno_despacha_efeitos [OF c] and d = turno_despacha(1,2) [OF c]
  obtain s1 where it: "iteracao env s = (Continue, s1)"
    using d(1) by (cases "iteracao env s") simp
  have l: "running s \<longrightarrow> run_loop (env # envs) s = run_loop envs (snd (iteracao env s))"
    by (simp add: it)
  have f: "fst (run_loop [env] s) \<noteq> Falha" by (simp add: it)
  show ?thesis
    unfolding e(3) e(6) using d l f assms(2,3) unfolding estado_def by simp
qed

theorem C8_witness:
  "''PROCESSANDO'' \<in> set (destinos (novos nero_inicial (snd (iteracao env_falha_agente nero_inicial)))) \<and>
   agente env_falha_agente = AgentResult \<lparr>resultado = [], sucesso = False\<rparr> \<and>
   \<not> sucesso \<lparr>resultado = [], sucesso = False\<rparr> \<and>
   fst (iteracao env_falha_agente nero_inicial) = Continue \<and>
   estado (snd (iteracao env_falha_agente nero_inicial)) = ''DESCANSO'' \<and>
   Log ''ERROR'' ''Agent processing failed''
     \<in> set (novos nero_inicial (snd (iteracao env_falha_agente nero_inicial))) \<and>
   run_loop [env_falha_agente, env_sucesso] nero_inicial
     = run_loop [env_sucesso] (snd (iteracao env_falha_agente nero_inicial))"
proof -
  have h: "''PROCESSANDO'' \<in> set (destinos (novos nero_inicial (snd (iteracao env_falha_agente nero_inicial))))"
    unfolding alcanca_processando
    using exemplo_alcanca(2) by (simp add: env_falha_agente_def env_sucesso_def)
  have a: "agente env_falha_agente = AgentResult \<lparr>resultado = [], sucesso = False\<rparr>"
    by (simp add: env_falha_agente_def env_sucesso_def)
  have n: "\<not> sucesso \<lparr>resultado = [], sucesso = False\<rparr>" by simp
  have r: "running nero_inicial" by (simp add: nero_inicial_def)
  show ?thesis
    using h a n r C8_falha_do_agente [OF h a n, of "[env_sucesso]"] by simp
qed



subsection \<open>The recording phase\<close>

lemma chamadas_append: "chamadas (xs @ ys) = chamadas xs @ chamadas ys"
  by (induction xs rule: chamadas.induct) simp_all

lemma chamadas_set: "Chamada c \<in> set es \<longleftrightarrow> c \<in> set (chamadas es)"
  by (induction es rule: chamadas.induct) auto

lemma chamadas_resp2 [simp]:
  "AguardarPalavraParada \<notin> set (chamadas (concat (map (\<lambda>r. [Log a (f r), Chamada (Falar (g r))]) rs)))"
  by (induction rs) simp_all

lemma chamadas_fases:
  "chamadas (novos s (snd (estado_descanso env s))) = [DetectarWakeWord]"
  "chamadas (novos s (snd (estado_aguardando s))) = []"
  "chamadas (novos s (snd (estado_gravando env s))) =
     Microphone #
     (if \<not> microfone env then []
      else case escuta env of
          OpenRaised \<Rightarrow> []
        | ListenAudio \<Rightarrow> [Listen, TranscreverAudioFile]
        | _ \<Rightarrow> [Listen])"
proof -
  show "chamadas (novos s (snd (estado_descanso env s))) = [DetectarWakeWord]"
    by (cases "wake env"; simp add: descanso_forma(5) novos_def chamadas_append)
  show "chamadas (novos s (snd (estado_aguardando s))) = []"
    by (simp add: aguardando_forma(5) novos_def chamadas_append)
  show "chamadas (novos s (snd (estado_gravando env s))) =
     Microphone #
     (if \<not> microfone env then []
      else case escuta env of
          OpenRaised \<Rightarrow> []
        | ListenAudio \<Rightarrow> [Listen, TranscreverAudioFile]
        | _ \<Rightarrow> [Listen])"
    by (cases "escuta env"; cases "transcrito env";
        simp add: gravando_forma(5) novos_def chamadas_append)
qed

lemma ate_gravar_chamadas:
  "chamadas (novos s (snd (estado_gravando env (snd (estado_aguardando (snd (estado_descanso env s))))))) =
     [DetectarWakeWord, Microphone] @
     (if \<not> microfone env then []
      else case escuta env of
          OpenRaised \<Rightarrow> []
        | ListenAudio \<Rightarrow> [Listen, TranscreverAudioFile]
        | _ \<Rightarrow> [Listen])"
proof -
  let ?s1 = "snd (estado_descanso env s)"
  let ?s2 = "snd (estado_aguardando ?s1)"
  let ?s3 = "snd (estado_gravando env ?s2)"
  have a: "novos s ?s2 = novos s ?s1 @ novos ?s1 ?s2" "efeitos ?s2 = efeitos s @ novos s ?s2"
    by (rule novos_cat [OF estende(1) estende(2)])+
  have b: "novos s ?s3 = novos s ?s2 @ novos ?s2 ?s3"
    by (rule novos_cat [OF a(2) estende(3)])
  show ?thesis
    unfolding b a(1) chamadas_append chamadas_fases by simp
qed

text \<open>
  C5 (as amended).  From the start of the turn to the end of the recording phase the
  orchestrator calls \<^verbatim>\<open>detectar_wake_word\<close>, constructs the microphone, makes at most
  one \<^verbatim>\<open>listen\<close> call and, when that returned audio, one transcription call; it never
  calls \<^verbatim>\<open>aguardar_palavra_parada\<close>.  The capture is that single \<^verbatim>\<open>listen\<close> call: when
  it ends by the wait timeout or by an exception, the transcript is empty.
\<close>

theorem C5_gravacao_sem_listener:
  "chamadas (novos s (snd (estado_gravando env (snd (estado_aguardando (snd (estado_descanso env s))))))) =
     [DetectarWakeWord, Microphone] @
     (if \<not> microfone env then []
      else case escuta env of
          OpenRaised \<Rightarrow> []
        | ListenAudio \<Rightarrow> [Listen, TranscreverAudioFile]
        | _ \<Rightarrow> [Listen]) \<and>
   Chamada AguardarPalavraParada \<notin>
     set (novos s (snd (estado_gravando env (snd (estado_aguardando (snd (estado_descanso env s))))))) \<and>
   (microfone env \<and> escuta env \<noteq> ListenAudio \<longrightarrow> fst (estado_gravando env s') = Inr [])"
proof -
  have 1: "Chamada AguardarPalavraParada \<notin>
     set (novos s (snd (estado_gravando env (snd (estado_aguardando (snd (estado_descanso env s)))))))"
    unfolding chamadas_set ate_gravar_chamadas by (cases "escuta env") simp_all
  have 2: "microfone env \<and> escuta env \<noteq> ListenAudio \<longrightarrow> fst (estado_gravando env s') = Inr []"
    by (cases "escuta env") (simp_all add: gravando_forma(1))
  from ate_gravar_chamadas 1 2 show ?thesis by blast
qed

text \<open>
  In the recording phase of the successful turn the capture call is made and the
  stop-word listener is not started.
\<close>

theorem C5_counterexample:
  "Chamada Listen \<in> set (novos nero_inicial (snd (estado_gravando env_sucesso nero_inicial))) \<and>
   Chamada AguardarPalavraParada \<notin> set (novos nero_inicial (snd (estado_gravando env_sucesso nero_inicial)))"
  unfolding chamadas_set chamadas_fases by (simp add: env_sucesso_def)

theorem C5_witness:
  "microfone (env_sucesso\<lparr>escuta := ListenWaitTimeout\<rparr>) \<and>
   escuta (env_sucesso\<lparr>escuta := ListenWaitTimeout\<rparr>) \<noteq> ListenAudio \<and>
   fst (estado_gravando (env_sucesso\<lparr>escuta := ListenWaitTimeout\<rparr>) nero_inicial) = Inr [] \<and>
   chamadas (novos nero_inicial (snd (estado_gravando (env_sucesso\<lparr>escuta := ListenWaitTimeout\<rparr>)
     (snd (estado_aguardando (snd (estado_descanso (env_sucesso\<lparr>escuta := ListenWaitTimeout\<rparr>) nero_inicial)))))))
     = [DetectarWakeWord, Microphone, Listen]"
proof -
  note c = C5_gravacao_sem_listener [of nero_inicial "env_sucesso\<lparr>escuta := ListenWaitTimeout\<rparr>" nero_inicial]
  have h1: "microfone (env_sucesso\<lparr>escuta := ListenWaitTimeout\<rparr>)" by (simp add: env_sucesso_def)
  have h2: "escuta (env_sucesso\<lparr>escuta := ListenWaitTimeout\<rparr>) \<noteq> ListenAudio" by simp
  from c h1 h2
  have 3: "fst (estado_gravando (env_sucesso\<lparr>escuta := ListenWaitTimeout\<rparr>) nero_inicial) = Inr []"
    by blast
  from c h1
  have 4: "chamadas (novos nero_inicial (snd (estado_gravando (env_sucesso\<lparr>escuta := ListenWaitTimeout\<rparr>)
     (snd (estado_aguardando (snd (estado_descanso (env_sucesso\<lparr>escuta := ListenWaitTimeout\<rparr>) nero_inicial)))))))
     = [DetectarWakeWord, Microphone, Listen]"
    by simp
  from h1 h2 3 4 show ?thesis by blast
qed

section \<open>Properties of the stop-word listener\<close>

lemma verificar_texto_fila:
  "stop_word_queue (snd (verificar_texto sw cb txt st)) =
     stop_word_queue st @ (case fst (verificar_texto sw cb txt st) of None \<Rightarrow> []
        | Some r \<Rightarrow> [Detectado (the (find (\<lambda>w. sublist (upper w) (strip (upper txt))) sw))])"
  by (simp add: verificar_texto_def Let_def put_def split: option.splits)

lemma verificar_texto_retorna:
  assumes "\<forall>w. cb w = Retorna"
  shows "fst (verificar_texto sw cb txt st) = None \<or> fst (verificar_texto sw cb txt st) = Some Retorna"
  using assms by (simp add: verificar_texto_def Let_def split: option.splits)

lemma passo_parada_retorna:
  assumes "\<forall>w. cb w = Retorna" and "passo_parada sw cb p st = (a, st1)"
  shows "(a = Continua \<longrightarrow> stop_word_queue st1 = stop_word_queue st) \<and>
         (a = Saiu \<longrightarrow> length (stop_word_queue st1) = Suc (length (stop_word_queue st)))"
  using assms verificar_texto_retorna [OF assms(1), of sw]
  by (auto simp: passo_parada_def google_fallback_def put_def verificar_texto_def Let_def
      split: passo.splits escuta_parada.splits sphinx.splits google.splits option.splits
        retorno_callback.splits prod.splits)

lemma listen_for_stop_retorna:
  assumes "\<forall>w. cb w = Retorna" and "listen_for_stop sw cb ps st = (a, st1)"
  shows "(a = Continua \<longrightarrow> stop_word_queue st1 = stop_word_queue st) \<and>
         (a = Saiu \<longrightarrow> length (stop_word_queue st1) = Suc (length (stop_word_queue st)))"
  using assms
proof (induction ps arbitrary: st)
  case Nil
  then show ?case by simp
next
  case (Cons p ps)
  obtain b st2 where p: "passo_parada sw cb p st = (b, st2)" by (cases "passo_parada sw cb p st")
  note q = passo_parada_retorna [OF Cons.prems(1) p]
  show ?case
  proof (cases b)
    case Saiu
    then show ?thesis using Cons.prems(2) p q by simp
  next
    case Continua
    then have "listen_for_stop sw cb ps st2 = (a, st1)" using Cons.prems(2) p by simp
    from Cons.IH [OF Cons.prems(1) this] show ?thesis using q Continua by simp
  qed
qed

text \<open>With a callback that returns, one invocation leaves at most one event.\<close>

lemma aguardar_callback_retorna:
  assumes "\<forall>w. cb w = Retorna"
  shows "length (stop_word_queue (snd (aguardar_palavra_parada sw cb preparo ps st))) \<le> 1"
proof (cases preparo)
  case False
  then show ?thesis by (simp add: aguardar_palavra_parada_def put_def)
next
  case True
  let ?st0 = "st\<lparr>stop_word_detected := False, stop_word_queue := []\<rparr>"
  obtain a st1 where l: "listen_for_stop sw cb ps ?st0 = (a, st1)"
    by (cases "listen_for_stop sw cb ps ?st0")
  from listen_for_stop_retorna [OF assms l] have "length (stop_word_queue st1) \<le> 1"
    by (cases a) simp_all
  then show ?thesis using True l by (simp add: aguardar_palavra_parada_def)
qed

text \<open>An event on the queue is handed out by one poll; the next poll finds the queue empty.\<close>

lemma verificar_uma_vez:
  assumes "stop_word_queue st = [e]"
  shows "fst (verificar_palavra_parada_detectada st) = Some e"
    and "fst (verificar_palavra_parada_detectada (snd (verificar_palavra_parada_detectada st))) = None"
    and "stop_word_queue (snd (verificar_palavra_parada_detectada st)) = []"
  using assms by (simp_all add: verificar_palavra_parada_detectada_def)

lemma verificar_vazia:
  "stop_word_queue st = [] \<Longrightarrow> verificar_palavra_parada_detectada st = (None, st)"
  by (simp add: verificar_palavra_parada_detectada_def)


end
